theory Spec2Isabelle
  imports Complex_Main "HOL-Library.AList" "HOL-Library.Word"
begin

section \<open>Values, exceptions and the event\<close>

text \<open>
  The handlers of \<^verbatim>\<open>handler.py\<close> work on JSON values: the parsed request body, the
  attributes of a metadata record and the dictionaries handed to \<^verbatim>\<open>json.dumps\<close>.
  A Python dict whose keys are strings is an association list; lookups take the first
  binding of a key.
\<close>

datatype json =
    JNull
  | JBool bool
  | JInt int
  | JFloat real
  | JStr string
  | JArr "json list"
  | JObj "(string \<times> json) list"
  | JDecimal int

text \<open>
  \<open>JDecimal\<close> is a \<^verbatim>\<open>decimal.Decimal\<close>: the table client hands every number of an
  item back as one. It is no JSON value: the parser never produces it and the encoder
  does not take it.
\<close>

type_synonym bytes = "8 word list"

text \<open>Python's truth value of a JSON value, as tested by \<^verbatim>\<open>if not x\<close>.\<close>

fun truthy :: "json \<Rightarrow> bool" where
  "truthy JNull = False"
| "truthy (JBool b) = b"
| "truthy (JInt n) = (n \<noteq> 0)"
| "truthy (JFloat x) = (x \<noteq> 0)"
| "truthy (JStr s) = (s \<noteq> [])"
| "truthy (JArr xs) = (xs \<noteq> [])"
| "truthy (JObj kv) = (kv \<noteq> [])"
| "truthy (JDecimal n) = (n \<noteq> 0)"

fun type_name :: "json \<Rightarrow> string" where
  "type_name JNull = ''NoneType''"
| "type_name (JBool b) = ''bool''"
| "type_name (JInt n) = ''int''"
| "type_name (JFloat x) = ''float''"
| "type_name (JStr s) = ''str''"
| "type_name (JArr xs) = ''list''"
| "type_name (JObj kv) = ''dict''"
| "type_name (JDecimal n) = ''Decimal''"

text \<open>
  Exceptions are values. \<open>ClientError\<close> is \<^verbatim>\<open>botocore.exceptions.ClientError\<close>, the
  class the handlers catch by name; every other constructor is an exception that only
  \<^verbatim>\<open>except Exception\<close> catches. \<open>SerializerError\<close> stands for what the type
  serializer of the table client raises on a number it does not take (\<^verbatim>\<open>TypeError\<close>
  for a float, a signal of the \<^verbatim>\<open>decimal\<close> module for an integer of more than 38
  digits). The string is what \<^verbatim>\<open>str(e)\<close> returns.
\<close>

datatype exn =
    ClientError string
  | AttributeError string
  | KeyError string
  | TypeError string
  | ParamValidationError string
  | RecursionError string
  | SerializerError string
  | OtherException string

fun str_exn :: "exn \<Rightarrow> string" where
  "str_exn (ClientError m) = m"
| "str_exn (AttributeError m) = m"
| "str_exn (KeyError m) = m"
| "str_exn (TypeError m) = m"
| "str_exn (ParamValidationError m) = m"
| "str_exn (RecursionError m) = m"
| "str_exn (SerializerError m) = m"
| "str_exn (OtherException m) = m"

fun is_ClientError :: "exn \<Rightarrow> bool" where
  "is_ClientError (ClientError m) = True"
| "is_ClientError e = False"

text \<open>
  \<^verbatim>\<open>x.get(k)\<close> and \<^verbatim>\<open>x.get(k, d)\<close>: only a dict has the attribute \<^verbatim>\<open>get\<close>; on
  a list, string, number, boolean or \<^verbatim>\<open>None\<close> the attribute lookup raises
  \<^verbatim>\<open>AttributeError\<close>.
\<close>

definition no_get :: "json \<Rightarrow> exn" where
  "no_get x = AttributeError ([CHR 0x27] @ type_name x @ [CHR 0x27] @ '' object has no attribute '' @ [CHR 0x27] @ ''get'' @ [CHR 0x27])"

fun py_get_default :: "json \<Rightarrow> string \<Rightarrow> json \<Rightarrow> exn + json" where
  "py_get_default (JObj kv) k d = Inr (case map_of kv k of None \<Rightarrow> d | Some v \<Rightarrow> v)"
| "py_get_default x k d = Inl (no_get x)"

definition py_get :: "json \<Rightarrow> string \<Rightarrow> exn + json" where
  "py_get x k = py_get_default x k JNull"

text \<open>
  The invocation event: \<^verbatim>\<open>httpMethod\<close> and \<^verbatim>\<open>body\<close> are strings or missing
  (\<^verbatim>\<open>event.get\<close> gives \<^verbatim>\<open>None\<close> for a missing key and for a null value alike).
  For \<^verbatim>\<open>queryStringParameters\<close> the handlers tell three cases apart: the key is
  missing from the event, the key is there with the value null (what an HTTP gateway sends
  for a request without a query string), or it holds a mapping of strings.
\<close>

datatype query_params = Absent | Null | Params "string \<rightharpoonup> string"

record event =
  httpMethod :: "string option"
  body :: "string option"
  queryStringParameters :: query_params

record response =
  statusCode :: int
  resp_body :: string

section \<open>The library and the environment of one invocation\<close>

text \<open>
  The functions of the Python standard library that the handlers call are parameters:
  \<^item> \<open>loads s\<close> is \<^verbatim>\<open>json.loads(s)\<close> on a string, \<open>None\<close> when it raises;
  \<^item> \<open>loads_recursion s\<close> tells the two ways in which \<^verbatim>\<open>json.loads(s)\<close> raises
    apart: \<open>None\<close> for \<^verbatim>\<open>JSONDecodeError\<close> (the text is not JSON), \<open>Some m\<close> for
    \<^verbatim>\<open>RecursionError\<close> with the text \<open>m\<close> (the text is nested deeper than the
    interpreter recurses);
  \<^item> \<open>dumps v\<close> is \<^verbatim>\<open>json.dumps(v)\<close> on a value without a \<^verbatim>\<open>Decimal\<close>,
    \<open>None\<close> when it raises \<^verbatim>\<open>TypeError\<close>;
  \<^item> \<open>b64decode s\<close> is \<^verbatim>\<open>base64.b64decode(s)\<close> on a string, \<open>None\<close> when it raises;
  \<^item> \<open>b64encode b\<close> is \<^verbatim>\<open>base64.b64encode(b).decode()\<close>.
\<close>

record pylib =
  loads :: "string \<Rightarrow> json option"
  loads_recursion :: "string \<Rightarrow> string option"
  dumps :: "json \<Rightarrow> string option"
  b64decode :: "string \<Rightarrow> bytes option"
  b64encode :: "bytes \<Rightarrow> string"

text \<open>The calls a handler makes on the two store clients.\<close>

datatype store_op =
  PutObject | GetObject | DeleteObject | PutItem | GetItem | DeleteItem | Scan

text \<open>
  A calendar date and a clock reading. \<^verbatim>\<open>datetime.now()\<close> reads the local clock of
  the host; the UTC reading of the same instant is kept beside it.
\<close>

record date =
  year :: nat
  month :: nat
  day :: nat

record clock =
  local_now :: date
  utc_now :: date

text \<open>
  What one invocation gets from outside: for each store call, whether the call raises
  (and what) although its arguments have the right types, be it that the connection or
  the service fails or that the service turns the request down; the exception with which the table
  client or the table service rejects a key value that is not a string (the key attribute
  \<^verbatim>\<open>id\<close> of the table has type string); the text with which a store client reports
  an argument it does not take; the number of items of the table that one
  \<^verbatim>\<open>scan\<close> call reads, which is as many as fit its page of 1 MB; the identifier
  \<^verbatim>\<open>str(uuid.uuid4())\<close>; and the clock.
\<close>

record env =
  faults :: "store_op \<Rightarrow> exn option"
  key_rejected :: "json \<Rightarrow> exn"
  report :: "json \<Rightarrow> string"
  scan_page :: nat
  uuid4 :: string
  now :: clock

text \<open>
  The two stores: the objects of the bucket by key, the items of the table by the value
  of their key attribute \<^verbatim>\<open>id\<close>, and the store calls made so far, in order.
\<close>

type_synonym item = "(string \<times> json) list"

record world =
  bucket :: "string \<rightharpoonup> bytes"
  table :: "(string \<times> item) list"
  calls :: "store_op list"

section \<open>The store clients\<close>

definition record_call :: "store_op \<Rightarrow> world \<Rightarrow> world" where
  "record_call c w = w\<lparr>calls := calls w @ [c]\<rparr>"

text \<open>
  The object store client checks its parameters before it sends a request: a
  \<^verbatim>\<open>Key\<close> that is not a string raises \<^verbatim>\<open>ParamValidationError\<close>, which is not a
  \<^verbatim>\<open>ClientError\<close>, with the client's report as its text. \<^verbatim>\<open>put_object\<close> overwrites, \<^verbatim>\<open>get_object\<close> of a key
  that is not there raises the \<^verbatim>\<open>ClientError\<close> NoSuchKey, \<^verbatim>\<open>delete_object\<close> of a
  key that is not there succeeds. A call that raises leaves the stores as they are.
\<close>

definition bad_key :: "env \<Rightarrow> json \<Rightarrow> exn" where
  "bad_key E k = ParamValidationError (report E k)"

definition no_such_key :: exn where
  "no_such_key = ClientError ''An error occurred (NoSuchKey) when calling the GetObject operation: The specified key does not exist.''"

definition s3_put_object :: "env \<Rightarrow> json \<Rightarrow> bytes \<Rightarrow> world \<Rightarrow> (exn + unit) \<times> world" where
  "s3_put_object E key data w =
     (let w1 = record_call PutObject w in
      case key of
        JStr k \<Rightarrow>
          (case faults E PutObject of
             Some e \<Rightarrow> (Inl e, w1)
           | None \<Rightarrow> (Inr (), w1\<lparr>bucket := (bucket w1)(k \<mapsto> data)\<rparr>))
      | _ \<Rightarrow> (Inl (bad_key E key), w1))"

definition s3_get_object :: "env \<Rightarrow> json \<Rightarrow> world \<Rightarrow> (exn + bytes) \<times> world" where
  "s3_get_object E key w =
     (let w1 = record_call GetObject w in
      case key of
        JStr k \<Rightarrow>
          (case faults E GetObject of
             Some e \<Rightarrow> (Inl e, w1)
           | None \<Rightarrow>
               (case bucket w1 k of
                  None \<Rightarrow> (Inl no_such_key, w1)
                | Some data \<Rightarrow> (Inr data, w1)))
      | _ \<Rightarrow> (Inl (bad_key E key), w1))"

definition s3_delete_object :: "env \<Rightarrow> json \<Rightarrow> world \<Rightarrow> (exn + unit) \<times> world" where
  "s3_delete_object E key w =
     (let w1 = record_call DeleteObject w in
      case key of
        JStr k \<Rightarrow>
          (case faults E DeleteObject of
             Some e \<Rightarrow> (Inl e, w1)
           | None \<Rightarrow> (Inr (), w1\<lparr>bucket := (bucket w1)(k := None)\<rparr>))
      | _ \<Rightarrow> (Inl (bad_key E key), w1))"

text \<open>
  What the table client does to the values of an item. Writing, its type serializer takes
  strings, booleans, null, lists, dicts and integers of at most 38 digits; it raises on a
  float and on a longer integer, before any request is sent. Reading, it hands every
  number back as a \<^verbatim>\<open>Decimal\<close>.
\<close>

fun storable :: "json \<Rightarrow> bool" where
  "storable (JFloat x) = False"
| "storable (JInt n) = (\<bar>n\<bar> < 10 ^ 38)"
| "storable (JDecimal n) = (\<bar>n\<bar> < 10 ^ 38)"
| "storable (JArr xs) = list_all storable xs"
| "storable (JObj kv) = list_all (\<lambda>p. storable (snd p)) kv"
| "storable v = True"

fun as_read :: "json \<Rightarrow> json" where
  "as_read (JInt n) = JDecimal n"
| "as_read (JArr xs) = JArr (map as_read xs)"
| "as_read (JObj kv) = JObj (map (\<lambda>p. (fst p, as_read (snd p))) kv)"
| "as_read v = v"

definition read_item :: "item \<Rightarrow> item" where
  "read_item it = map (\<lambda>p. (fst p, as_read (snd p))) it"

text \<open>
  The table: \<^verbatim>\<open>put_item\<close> replaces the item with the same \<^verbatim>\<open>id\<close>,
  \<^verbatim>\<open>get_item\<close> returns the item or nothing, \<^verbatim>\<open>delete_item\<close> of an absent key
  succeeds. One \<^verbatim>\<open>scan\<close> call reads the first page of the table, the items that fit
  1 MB, in the order of the table, and returns those of them that satisfy the filter
  expression; what lies behind the page takes further calls, which start at the
  \<^verbatim>\<open>LastEvaluatedKey\<close> of the reply.
\<close>

definition table_put_item :: "env \<Rightarrow> item \<Rightarrow> world \<Rightarrow> (exn + unit) \<times> world" where
  "table_put_item E Item w =
     (let w1 = record_call PutItem w in
      if \<not> storable (JObj Item) then (Inl (SerializerError (report E (JObj Item))), w1)
      else (case map_of Item ''id'' of
        Some (JStr k) \<Rightarrow>
          (case faults E PutItem of
             Some e \<Rightarrow> (Inl e, w1)
           | None \<Rightarrow> (Inr (), w1\<lparr>table := AList.update k Item (table w1)\<rparr>))
      | Some v \<Rightarrow> (Inl (key_rejected E v), w1)
      | None \<Rightarrow> (Inl (key_rejected E JNull), w1)))"

definition table_get_item :: "env \<Rightarrow> json \<Rightarrow> world \<Rightarrow> (exn + item option) \<times> world" where
  "table_get_item E key w =
     (let w1 = record_call GetItem w in
      case key of
        JStr k \<Rightarrow>
          (case faults E GetItem of
             Some e \<Rightarrow> (Inl e, w1)
           | None \<Rightarrow> (Inr (map_option read_item (map_of (table w1) k)), w1))
      | _ \<Rightarrow> (Inl (key_rejected E key), w1))"

definition table_delete_item :: "env \<Rightarrow> json \<Rightarrow> world \<Rightarrow> (exn + unit) \<times> world" where
  "table_delete_item E key w =
     (let w1 = record_call DeleteItem w in
      case key of
        JStr k \<Rightarrow>
          (case faults E DeleteItem of
             Some e \<Rightarrow> (Inl e, w1)
           | None \<Rightarrow> (Inr (), w1\<lparr>table := AList.delete k (table w1)\<rparr>))
      | _ \<Rightarrow> (Inl (key_rejected E key), w1))"

text \<open>
  Filter expressions as the handler builds them: \<^verbatim>\<open>Attr(a).eq(v)\<close> and the
  conjunction \<^verbatim>\<open>&\<close>. An item satisfies \<^verbatim>\<open>Attr(a).eq(v)\<close> when it has the attribute
  \<open>a\<close> and its value is the string \<open>v\<close>.
\<close>

datatype filter_expr = AttrEq string string | And filter_expr filter_expr

fun matches :: "filter_expr \<Rightarrow> item \<Rightarrow> bool" where
  "matches (AttrEq a v) it = (map_of it a = Some (JStr v))"
| "matches (And f g) it = (matches f it \<and> matches g it)"

definition selected :: "filter_expr option \<Rightarrow> item \<Rightarrow> bool" where
  "selected FilterExpression it = (case FilterExpression of None \<Rightarrow> True | Some f \<Rightarrow> matches f it)"

definition first_page :: "env \<Rightarrow> world \<Rightarrow> item list" where
  "first_page E w = take (scan_page E) (map snd (table w))"

definition table_scan :: "env \<Rightarrow> filter_expr option \<Rightarrow> world \<Rightarrow> (exn + item list) \<times> world" where
  "table_scan E FilterExpression w =
     (let w1 = record_call Scan w in
      case faults E Scan of
        Some e \<Rightarrow> (Inl e, w1)
      | None \<Rightarrow> (Inr (map read_item (filter (selected FilterExpression) (first_page E w1))), w1))"

section \<open>Dates\<close>

text \<open>
  \<^verbatim>\<open>date.isoformat()\<close> prints \<^verbatim>\<open>YYYY-MM-DD\<close>: the year on four digits, month and
  day on two, padded with zeros. The years of a \<^verbatim>\<open>date\<close> run from 1 to 9999.
\<close>

definition digit :: "nat \<Rightarrow> char" where
  "digit n = ''0123456789'' ! (n mod 10)"

definition isoformat :: "date \<Rightarrow> string" where
  "isoformat d =
     [digit (year d div 1000), digit (year d div 100), digit (year d div 10), digit (year d)]
     @ ''-'' @ [digit (month d div 10), digit (month d)]
     @ ''-'' @ [digit (day d div 10), digit (day d)]"

definition valid_date :: "date \<Rightarrow> bool" where
  "valid_date d \<longleftrightarrow> 1 \<le> year d \<and> year d \<le> 9999 \<and> 1 \<le> month d \<and> month d \<le> 12 \<and> 1 \<le> day d \<and> day d \<le> 31"

definition is_digit :: "char \<Rightarrow> bool" where
  "is_digit c \<longleftrightarrow> c \<in> set ''0123456789''"

text \<open>A string of the shape \<^verbatim>\<open>dddd-dd-dd\<close>: ten characters, a date and nothing after it.\<close>

fun is_iso_date :: "string \<Rightarrow> bool" where
  "is_iso_date [y1, y2, y3, y4, s1, m1, m2, s2, d1, d2] =
     (is_digit y1 \<and> is_digit y2 \<and> is_digit y3 \<and> is_digit y4 \<and> s1 = CHR ''-''
      \<and> is_digit m1 \<and> is_digit m2 \<and> s2 = CHR ''-'' \<and> is_digit d1 \<and> is_digit d2)"
| "is_iso_date s = False"

text \<open>
  Reading a date back from a string of that shape, as \<^verbatim>\<open>date.fromisoformat\<close> does.
\<close>

definition digit_value :: "char \<Rightarrow> nat" where
  "digit_value c = of_char c - 48"

fun read_iso_date :: "string \<Rightarrow> date option" where
  "read_iso_date [y1, y2, y3, y4, s1, m1, m2, s2, d1, d2] =
     (if is_iso_date [y1, y2, y3, y4, s1, m1, m2, s2, d1, d2]
      then Some \<lparr>year = 1000 * digit_value y1 + 100 * digit_value y2 + 10 * digit_value y3 + digit_value y4,
                 month = 10 * digit_value m1 + digit_value m2,
                 day = 10 * digit_value d1 + digit_value d2\<rparr>
      else None)"
| "read_iso_date s = None"

section \<open>The handlers\<close>

definition err :: "string \<Rightarrow> json" where
  "err m = JObj [(''error'', JStr m)]"

text \<open>
  \<^verbatim>\<open>json.dumps\<close> raises \<^verbatim>\<open>TypeError\<close> on a value that holds a \<^verbatim>\<open>Decimal\<close>.
\<close>

fun has_decimal :: "json \<Rightarrow> bool" where
  "has_decimal (JDecimal n) = True"
| "has_decimal (JArr xs) = list_ex has_decimal xs"
| "has_decimal (JObj kv) = list_ex (\<lambda>p. has_decimal (snd p)) kv"
| "has_decimal v = False"

definition response :: "pylib \<Rightarrow> int \<Rightarrow> json \<Rightarrow> exn + response" where
  "response L status_code body_dict =
     (if has_decimal body_dict
      then Inl (TypeError ''Object of type Decimal is not JSON serializable'')
      else (case dumps L body_dict of
        None \<Rightarrow> Inl (TypeError ''Object is not JSON serializable'')
      | Some s \<Rightarrow> Inr \<lparr>statusCode = status_code, resp_body = s\<rparr>))"

text \<open>
  \<^verbatim>\<open>base64.b64decode\<close> on a JSON value: anything but a string raises
  \<^verbatim>\<open>TypeError\<close>; the handler catches every exception of the call alike.
\<close>

definition py_b64decode :: "pylib \<Rightarrow> json \<Rightarrow> bytes option" where
  "py_b64decode L v = (case v of JStr s \<Rightarrow> b64decode L s | _ \<Rightarrow> None)"

subsection \<open>upload\<close>

text \<open>
  The statements of the \<^verbatim>\<open>try\<close> block of \<^verbatim>\<open>upload_image\<close>: the result is the
  response returned or the exception raised, with the stores as the block left them.
\<close>

definition upload_item :: "string \<Rightarrow> json \<Rightarrow> json \<Rightarrow> string \<Rightarrow> item" where
  "upload_item unique_id file_name metadata created_at =
     [(''id'', JStr unique_id), (''file_name'', file_name), (''metadata'', metadata),
      (''created_at'', JStr created_at)]"

definition upload_ok :: "json \<Rightarrow> string \<Rightarrow> json" where
  "upload_ok file_name unique_id =
     JObj [(''message'', JStr ''Image uploaded''), (''file_name'', file_name), (''id'', JStr unique_id)]"

definition upload_image_try :: "pylib \<Rightarrow> env \<Rightarrow> event \<Rightarrow> world \<Rightarrow> (exn + response) \<times> world" where
  "upload_image_try L E ev w =
     (if httpMethod ev \<noteq> Some ''POST'' then (response L 405 (err ''Method not allowed, use POST''), w)
      else (case body ev of
        None \<Rightarrow> (response L 400 (err ''Request body is missing''), w)
      | Some body_str \<Rightarrow>
         (if body_str = [] then (response L 400 (err ''Request body is missing''), w)
          else (case loads L body_str of
            None \<Rightarrow>
              (case loads_recursion L body_str of
                 None \<Rightarrow> (response L 400 (err ''Invalid JSON in body''), w)
               | Some m \<Rightarrow> (Inl (RecursionError m), w))
          | Some parsed \<Rightarrow>
              (case py_get parsed ''file_name'' of
                 Inl e \<Rightarrow> (Inl e, w)
               | Inr file_name \<Rightarrow>
              (case py_get parsed ''file_content'' of
                 Inl e \<Rightarrow> (Inl e, w)
               | Inr file_content_b64 \<Rightarrow>
              (case py_get_default parsed ''metadata'' (JObj []) of
                 Inl e \<Rightarrow> (Inl e, w)
               | Inr metadata \<Rightarrow>
                 (if \<not> truthy file_name \<or> \<not> truthy file_content_b64
                  then (response L 400 (err ''file_name and file_content required''), w)
                  else (case py_b64decode L file_content_b64 of
                    None \<Rightarrow> (response L 400 (err ''Invalid base64 for file_content''), w)
                  | Some file_content \<Rightarrow>
                      (let unique_id = uuid4 E in
                       (case s3_put_object E file_name file_content w of
                         (Inl e, w1) \<Rightarrow> (Inl e, w1)
                       | (Inr u, w1) \<Rightarrow>
                           (let created_at = isoformat (local_now (now E)) in
                            (case table_put_item E (upload_item unique_id file_name metadata created_at) w1 of
                              (Inl e, w2) \<Rightarrow> (Inl e, w2)
                            | (Inr u, w2) \<Rightarrow> (response L 200 (upload_ok file_name unique_id), w2))))))))))))))"

text \<open>\<^verbatim>\<open>except Exception as e: return response(500, {"error": str(e)})\<close>\<close>

definition upload_image :: "pylib \<Rightarrow> env \<Rightarrow> event \<Rightarrow> world \<Rightarrow> (exn + response) \<times> world" where
  "upload_image L E ev w =
     (case upload_image_try L E ev w of
        (Inl e, w') \<Rightarrow> (response L 500 (err (str_exn e)), w')
      | (Inr r, w') \<Rightarrow> (Inr r, w'))"

subsection \<open>list\<close>

text \<open>
  \<^verbatim>\<open>event.get("queryStringParameters", {})\<close> puts the empty dict in place of a
  missing key only; \<^verbatim>\<open>... or {}\<close> puts it in place of \<^verbatim>\<open>None\<close> as well.
  \<^verbatim>\<open>params.get(k)\<close> on \<^verbatim>\<open>None\<close> raises \<^verbatim>\<open>AttributeError\<close>.
\<close>

fun get_default_params :: "query_params \<Rightarrow> query_params" where
  "get_default_params Absent = Params Map.empty"
| "get_default_params q = q"

fun or_empty :: "query_params \<Rightarrow> query_params" where
  "or_empty Null = Params Map.empty"
| "or_empty q = q"

fun params_get :: "query_params \<Rightarrow> string \<Rightarrow> exn + string option" where
  "params_get (Params m) k = Inr (m k)"
| "params_get q k = Inl (no_get JNull)"

text \<open>The truth value of \<^verbatim>\<open>params.get(k)\<close>: a string that is there and not empty.\<close>

fun given :: "string option \<Rightarrow> bool" where
  "given None = False"
| "given (Some s) = (s \<noteq> [])"

text \<open>
  The filter expression of \<^verbatim>\<open>list_images\<close>, from the two values
  \<^verbatim>\<open>params.get("file_name")\<close> and \<^verbatim>\<open>params.get("created_at")\<close>.
\<close>

definition list_filter :: "string option \<Rightarrow> string option \<Rightarrow> filter_expr option" where
  "list_filter file_name_filter created_at_filter =
     (let filter_expr = None;
          filter_expr = (case file_name_filter of
                           Some v \<Rightarrow> (if v \<noteq> [] then Some (AttrEq ''file_name'' v) else filter_expr)
                         | None \<Rightarrow> filter_expr)
      in (case created_at_filter of
            Some v \<Rightarrow>
              (if v \<noteq> [] then
                 (let expr = AttrEq ''created_at'' v in
                  (case filter_expr of None \<Rightarrow> Some expr | Some f \<Rightarrow> Some (And f expr)))
               else filter_expr)
          | None \<Rightarrow> filter_expr))"

definition list_ok :: "item list \<Rightarrow> json" where
  "list_ok response_items = JObj [(''images'', JArr (map JObj response_items))]"

definition list_images_try :: "pylib \<Rightarrow> env \<Rightarrow> event \<Rightarrow> world \<Rightarrow> (exn + response) \<times> world" where
  "list_images_try L E ev w =
     (let params = or_empty (get_default_params (queryStringParameters ev)) in
      (case params_get params ''file_name'' of
         Inl e \<Rightarrow> (Inl e, w)
       | Inr file_name_filter \<Rightarrow>
      (case params_get params ''created_at'' of
         Inl e \<Rightarrow> (Inl e, w)
       | Inr created_at_filter \<Rightarrow>
      (case table_scan E (list_filter file_name_filter created_at_filter) w of
         (Inl e, w1) \<Rightarrow> (Inl e, w1)
       | (Inr response_items, w1) \<Rightarrow> (response L 200 (list_ok response_items), w1)))))"

definition list_images :: "pylib \<Rightarrow> env \<Rightarrow> event \<Rightarrow> world \<Rightarrow> (exn + response) \<times> world" where
  "list_images L E ev w =
     (case list_images_try L E ev w of
        (Inl e, w') \<Rightarrow> (response L 500 (err (str_exn e)), w')
      | (Inr r, w') \<Rightarrow> (Inr r, w'))"

subsection \<open>get\<close>

definition get_ok :: "string \<Rightarrow> json \<Rightarrow> string \<Rightarrow> json \<Rightarrow> json" where
  "get_ok image_id file_name file_content_b64 created_at =
     JObj [(''id'', JStr image_id), (''file_name'', file_name),
           (''file_content'', JStr file_content_b64), (''created_at'', created_at)]"

definition missing_file_name :: exn where
  "missing_file_name = KeyError ([CHR 0x27] @ ''file_name'' @ [CHR 0x27])"

definition get_image_try :: "pylib \<Rightarrow> env \<Rightarrow> event \<Rightarrow> world \<Rightarrow> (exn + response) \<times> world" where
  "get_image_try L E ev w =
     (let params = get_default_params (queryStringParameters ev) in
      (case params_get params ''id'' of
         Inl e \<Rightarrow> (Inl e, w)
       | Inr None \<Rightarrow> (response L 400 (err ''Missing id in query parameters''), w)
       | Inr (Some image_id) \<Rightarrow>
          (if image_id = [] then (response L 400 (err ''Missing id in query parameters''), w)
           else (case table_get_item E (JStr image_id) w of
             (Inl e, w1) \<Rightarrow> (Inl e, w1)
           | (Inr None, w1) \<Rightarrow> (response L 404 (err ''Image not found''), w1)
           | (Inr (Some item), w1) \<Rightarrow>
              (if item = [] then (response L 404 (err ''Image not found''), w1)
               else (case map_of item ''file_name'' of
                 None \<Rightarrow> (Inl missing_file_name, w1)
               | Some file_name \<Rightarrow>
                  (let created_at = (case map_of item ''created_at'' of None \<Rightarrow> JStr [] | Some v \<Rightarrow> v) in
                   (case s3_get_object E file_name w1 of
                      (Inl e, w2) \<Rightarrow> (Inl e, w2)
                    | (Inr data, w2) \<Rightarrow>
                       (let file_content_b64 = b64encode L data in
                        (response L 200 (get_ok image_id file_name file_content_b64 created_at), w2))))))))))"

text \<open>
  \<^verbatim>\<open>except ClientError as e: return response(404, ...)\<close>, then
  \<^verbatim>\<open>except Exception as e: return response(500, ...)\<close>; both clauses guard the
  whole \<^verbatim>\<open>try\<close> block.
\<close>

definition get_image :: "pylib \<Rightarrow> env \<Rightarrow> event \<Rightarrow> world \<Rightarrow> (exn + response) \<times> world" where
  "get_image L E ev w =
     (case get_image_try L E ev w of
        (Inl e, w') \<Rightarrow>
          (if is_ClientError e then (response L 404 (err (str_exn e)), w')
           else (response L 500 (err (str_exn e)), w'))
      | (Inr r, w') \<Rightarrow> (Inr r, w'))"

subsection \<open>delete\<close>

definition delete_ok :: "json \<Rightarrow> json" where
  "delete_ok image_id = JObj [(''message'', JStr ''Deleted successfully''), (''id'', image_id)]"

definition delete_image_try :: "pylib \<Rightarrow> env \<Rightarrow> event \<Rightarrow> world \<Rightarrow> (exn + response) \<times> world" where
  "delete_image_try L E ev w =
     (if httpMethod ev \<noteq> Some ''DELETE'' then (response L 405 (err ''Method not allowed, use DELETE''), w)
      else (case body ev of
        None \<Rightarrow> (response L 400 (err ''Request body missing''), w)
      | Some body_str \<Rightarrow>
         (if body_str = [] then (response L 400 (err ''Request body missing''), w)
          else (case loads L body_str of
            None \<Rightarrow>
              (case loads_recursion L body_str of
                 None \<Rightarrow> (response L 400 (err ''Invalid JSON in body''), w)
               | Some m \<Rightarrow> (Inl (RecursionError m), w))
          | Some parsed \<Rightarrow>
              (case py_get parsed ''id'' of
                 Inl e \<Rightarrow> (Inl e, w)
               | Inr image_id \<Rightarrow>
                 (if \<not> truthy image_id then (response L 400 (err ''Missing id in body''), w)
                  else (case table_get_item E image_id w of
                    (Inl e, w1) \<Rightarrow> (Inl e, w1)
                  | (Inr None, w1) \<Rightarrow> (response L 404 (err ''Image not found''), w1)
                  | (Inr (Some item), w1) \<Rightarrow>
                     (if item = [] then (response L 404 (err ''Image not found''), w1)
                      else (case map_of item ''file_name'' of
                        None \<Rightarrow> (Inl missing_file_name, w1)
                      | Some file_name \<Rightarrow>
                         (case s3_delete_object E file_name w1 of
                            (Inl e, w2) \<Rightarrow> (Inl e, w2)
                          | (Inr u, w2) \<Rightarrow>
                             (case table_delete_item E image_id w2 of
                                (Inl e, w3) \<Rightarrow> (Inl e, w3)
                              | (Inr u, w3) \<Rightarrow> (response L 200 (delete_ok image_id), w3))))))))))))"

definition delete_image :: "pylib \<Rightarrow> env \<Rightarrow> event \<Rightarrow> world \<Rightarrow> (exn + response) \<times> world" where
  "delete_image L E ev w =
     (case delete_image_try L E ev w of
        (Inl e, w') \<Rightarrow>
          (if is_ClientError e then (response L 404 (err (str_exn e)), w')
           else (response L 500 (err (str_exn e)), w'))
      | (Inr r, w') \<Rightarrow> (Inr r, w'))"

section \<open>Observations\<close>

text \<open>
  The status code of the response a handler returned, \<open>None\<close> when an exception left
  the handler.
\<close>

definition status :: "(exn + response) \<times> world \<Rightarrow> int option" where
  "status res = (case fst res of Inl e \<Rightarrow> None | Inr r \<Rightarrow> Some (statusCode r))"

text \<open>
  The response with status \<open>c\<close> whose body is the encoding of \<^verbatim>\<open>{"error": m}\<close>, for a
  library that encodes such a dict.
\<close>

definition refuse :: "pylib \<Rightarrow> int \<Rightarrow> string \<Rightarrow> response" where
  "refuse L c m = \<lparr>statusCode = c, resp_body = the (dumps L (err m))\<rparr>"

text \<open>The attribute \<open>a\<close> of the record with identifier \<open>i\<close> in the table.\<close>

definition attribute :: "world \<Rightarrow> string \<Rightarrow> string \<Rightarrow> json option" where
  "attribute w i a = (case map_of (table w) i of None \<Rightarrow> None | Some it \<Rightarrow> map_of it a)"


text \<open>
  A valid base64 string, as the standard has it: characters of the alphabet, then no, one
  or two padding characters, four characters to each group.
\<close>

definition b64_alphabet :: string where
  "b64_alphabet = ''ABCDEFGHIJKLMNOPQRSTUVWXYZabcdefghijklmnopqrstuvwxyz0123456789+/''"


text \<open>The query parameter \<open>k\<close> of an event, when the event has a mapping of parameters.\<close>

definition query :: "event \<Rightarrow> string \<Rightarrow> string option" where
  "query ev k = (case queryStringParameters ev of Params m \<Rightarrow> m k | _ \<Rightarrow> None)"

section \<open>A sample library, environment and requests\<close>

text \<open>
  One instance of the library, to run the handlers on concrete requests: an encoder that
  prints compact JSON text (strings as they are, no floats), the standard base64
  encoding, and a parser and a base64 decoder that know the texts of the requests below
  and reject every other text, the parser with \<^verbatim>\<open>JSONDecodeError\<close>.
\<close>

fun show_digits :: "nat \<Rightarrow> nat \<Rightarrow> string" where
  "show_digits 0 n = []"
| "show_digits (Suc f) n = (if n < 10 then [digit n] else show_digits f (n div 10) @ [digit n])"

definition show_int :: "int \<Rightarrow> string" where
  "show_int i =
     (if i < 0 then ''-'' @ show_digits (Suc (nat (- i))) (nat (- i))
      else show_digits (Suc (nat i)) (nat i))"

definition join :: "string list \<Rightarrow> string" where
  "join xs = concat (case xs of [] \<Rightarrow> [] | y # ys \<Rightarrow> y # map (\<lambda>s. '', '' @ s) ys)"

definition quoted :: "string \<Rightarrow> string" where
  "quoted s = [CHR 0x22] @ s @ [CHR 0x22]"

fun sample_dumps :: "json \<Rightarrow> string option" where
  "sample_dumps JNull = Some ''null''"
| "sample_dumps (JBool b) = Some (if b then ''true'' else ''false'')"
| "sample_dumps (JInt n) = Some (show_int n)"
| "sample_dumps (JFloat x) = None"
| "sample_dumps (JDecimal n) = None"
| "sample_dumps (JStr s) = Some (quoted s)"
| "sample_dumps (JArr xs) =
     map_option (\<lambda>ys. ''['' @ join ys @ '']'') (those (map sample_dumps xs))"
| "sample_dumps (JObj kv) =
     map_option (\<lambda>ys. ''{'' @ join ys @ ''}'')
       (those (map (\<lambda>p. map_option (\<lambda>s. quoted (fst p) @ '': '' @ s) (sample_dumps (snd p))) kv))"

fun b64_text :: "nat list \<Rightarrow> string" where
  "b64_text (a # b # c # rest) =
     [b64_alphabet ! (a div 4), b64_alphabet ! (a mod 4 * 16 + b div 16),
      b64_alphabet ! (b mod 16 * 4 + c div 64), b64_alphabet ! (c mod 64)] @ b64_text rest"
| "b64_text [a, b] =
     [b64_alphabet ! (a div 4), b64_alphabet ! (a mod 4 * 16 + b div 16),
      b64_alphabet ! (b mod 16 * 4), CHR ''='']"
| "b64_text [a] = [b64_alphabet ! (a div 4), b64_alphabet ! (a mod 4 * 16), CHR ''='', CHR ''='']"
| "b64_text [] = []"

definition hi_bytes :: bytes where
  "hi_bytes = [0x68, 0x69]"

definition upload_text :: string where
  \<open>upload_text = ''{"file_name": "a.png", "file_content": "aGk="}''\<close>

definition upload_json :: json where
  "upload_json = JObj [(''file_name'', JStr ''a.png''), (''file_content'', JStr ''aGk='')]"

definition bad_base64_text :: string where
  \<open>bad_base64_text = ''{"file_name": "a.png", "file_content": "a"}''\<close>

definition bad_base64_json :: json where
  "bad_base64_json = JObj [(''file_name'', JStr ''a.png''), (''file_content'', JStr ''a'')]"

definition no_content_text :: string where
  \<open>no_content_text = ''{"file_name": "a.png"}''\<close>

definition no_content_json :: json where
  "no_content_json = JObj [(''file_name'', JStr ''a.png'')]"

definition array_text :: string where
  "array_text = ''[1]''"

definition array_json :: json where
  "array_json = JArr [JInt 1]"


definition sample_id :: string where
  "sample_id = ''123e4567-e89b-42d3-a456-426614174000''"

definition delete_text :: string where
  \<open>delete_text = ''{"id": "123e4567-e89b-42d3-a456-426614174000"}''\<close>

definition delete_json :: json where
  "delete_json = JObj [(''id'', JStr sample_id)]"

definition sample_lib :: pylib where
  "sample_lib =
     \<lparr>loads = map_of [(upload_text, upload_json), (bad_base64_text, bad_base64_json),
                      (no_content_text, no_content_json), (array_text, array_json),
                      (delete_text, delete_json)],
      loads_recursion = (\<lambda>s. None),
      dumps = sample_dumps,
      b64decode = map_of [(''aGk='', hi_bytes)],
      b64encode = (\<lambda>data. b64_text (map unat data))\<rparr>"

text \<open>
  An environment in which no store call fails and a page of the scan holds a thousand
  items, on a host whose local date and UTC date agree; and the same instant on a host one hour east of UTC, half an hour before UTC
  midnight.
\<close>

definition no_faults :: "store_op \<Rightarrow> exn option" where
  "no_faults c = None"

definition schema_mismatch :: "json \<Rightarrow> exn" where
  "schema_mismatch k = ClientError ''An error occurred (ValidationException): The provided key element does not match the schema''"

definition sample_report :: "json \<Rightarrow> string" where
  "sample_report v = ''The client does not take this value of type '' @ type_name v"

definition quiet :: env where
  "quiet =
     \<lparr>faults = no_faults, key_rejected = schema_mismatch, report = sample_report,
      scan_page = 1000, uuid4 = sample_id,
      now = \<lparr>local_now = \<lparr>year = 2025, month = 10, day = 5\<rparr>,
             utc_now = \<lparr>year = 2025, month = 10, day = 5\<rparr>\<rparr>\<rparr>"

definition east_of_utc :: env where
  "east_of_utc =
     quiet\<lparr>now := \<lparr>local_now = \<lparr>year = 2025, month = 10, day = 6\<rparr>,
                    utc_now = \<lparr>year = 2025, month = 10, day = 5\<rparr>\<rparr>\<rparr>"

definition failing :: "store_op \<Rightarrow> exn \<Rightarrow> env" where
  "failing c e = quiet\<lparr>faults := no_faults(c \<mapsto> e)\<rparr>"

definition access_denied :: exn where
  "access_denied = ClientError ''An error occurred (AccessDenied): Access Denied''"

definition throttled :: exn where
  "throttled = ClientError ''An error occurred (ProvisionedThroughputExceededException): Rate exceeded''"

definition unreachable :: exn where
  "unreachable = OtherException ''Could not connect to the endpoint URL''"

definition empty_world :: world where
  "empty_world = \<lparr>bucket = Map.empty, table = [], calls = []\<rparr>"

definition sample_item :: item where
  "sample_item = upload_item sample_id (JStr ''a.png'') (JObj []) ''2025-10-05''"

text \<open>The stores after one upload of \<open>hi_bytes\<close> under the name \<^verbatim>\<open>a.png\<close>.\<close>

definition one_image :: world where
  "one_image =
     \<lparr>bucket = [''a.png'' \<mapsto> hi_bytes], table = [(sample_id, sample_item)],
      calls = [PutObject, PutItem]\<rparr>"















text \<open>The record of that upload without its object.\<close>

definition record_only :: world where
  "record_only = one_image\<lparr>bucket := Map.empty\<rparr>"

definition post :: "string \<Rightarrow> event" where
  "post text = \<lparr>httpMethod = Some ''POST'', body = Some text, queryStringParameters = Absent\<rparr>"

definition delete_request :: "string \<Rightarrow> event" where
  "delete_request text = \<lparr>httpMethod = Some ''DELETE'', body = Some text, queryStringParameters = Absent\<rparr>"

definition get_request :: "query_params \<Rightarrow> event" where
  "get_request q = \<lparr>httpMethod = Some ''GET'', body = None, queryStringParameters = q\<rparr>"

section \<open>Lemmas on responses and lookups\<close>


lemma response_Inr:
  "response L c v = Inr r \<Longrightarrow> statusCode r = c \<and> dumps L v = Some (resp_body r)"
  by (auto simp: response_def split: option.splits if_splits)


lemma response_refuse:
  assumes "\<forall>m. dumps L (err m) \<noteq> None"
  shows "response L c (err m) = Inr (refuse L c m)"
proof -
  from assms obtain s where "dumps L (err m) = Some s" by auto
  then show ?thesis by (simp add: response_def refuse_def err_def)
qed

lemma status_refuse: "status (Inr (refuse L c m), w) = Some c"
  by (simp add: status_def refuse_def)


lemma py_get_not_object: "\<forall>kv. parsed \<noteq> JObj kv \<Longrightarrow> py_get parsed k = Inl (no_get parsed)"
  by (cases parsed) (simp_all add: py_get_def)

lemma no_get_not_ClientError: "\<not> is_ClientError (no_get x)"
  by (simp add: no_get_def)

text \<open>Reading an item keeps its attributes, and keeps the strings among their values.\<close>

lemma map_of_read_item: "map_of (read_item it) k = map_option as_read (map_of it k)"
  by (induction it) (auto simp: read_item_def)

lemma read_item_empty: "read_item it = [] \<longleftrightarrow> it = []"
  by (simp add: read_item_def)

lemmas sample_defs =
  sample_lib_def quiet_def east_of_utc_def failing_def no_faults_def empty_world_def one_image_def
  post_def delete_request_def get_request_def upload_text_def upload_json_def
  bad_base64_text_def bad_base64_json_def no_content_text_def no_content_json_def
  array_text_def array_json_def sample_id_def delete_text_def delete_json_def
  hi_bytes_def sample_item_def upload_item_def

lemma sample_loads:
  "loads sample_lib upload_text = Some upload_json"
  "loads sample_lib bad_base64_text = Some bad_base64_json"
  "loads sample_lib no_content_text = Some no_content_json"
  "loads sample_lib array_text = Some array_json"
  "loads sample_lib delete_text = Some delete_json"
  by (simp_all add: sample_defs)

lemma sample_texts:
  "upload_text \<noteq> []" "bad_base64_text \<noteq> []" "no_content_text \<noteq> []" "array_text \<noteq> []"
  "delete_text \<noteq> []" "sample_id \<noteq> []"
  by (simp_all add: sample_defs)




lemmas request_defs = post_def delete_request_def get_request_def

lemmas state_defs = quiet_def east_of_utc_def failing_def no_faults_def empty_world_def one_image_def
  sample_item_def upload_item_def

lemma sample_encodes_errors: "\<forall>m. dumps sample_lib (err m) \<noteq> None"
  by (simp add: sample_lib_def err_def)

lemma sample_codec:
  "dumps sample_lib = sample_dumps"
  "b64decode sample_lib ''aGk='' = Some hi_bytes"
  "b64decode sample_lib ''a'' = None"
  "b64encode sample_lib hi_bytes = ''aGk=''"
  by (simp_all add: sample_lib_def hi_bytes_def b64_alphabet_def)

lemmas upload_defs = upload_image_def upload_image_try_def s3_put_object_def table_put_item_def
  record_call_def response_def py_get_def py_b64decode_def upload_ok_def

lemmas printing = err_def quoted_def join_def

lemma sample_upload:
  "upload_image sample_lib E (post upload_text) empty_world =
     (if faults E PutObject = None \<and> faults E PutItem = None then
        (Inr \<lparr>statusCode = 200, resp_body = the (sample_dumps (upload_ok (JStr ''a.png'') (uuid4 E)))\<rparr>,
         \<lparr>bucket = [''a.png'' \<mapsto> hi_bytes],
          table = [(uuid4 E, upload_item (uuid4 E) (JStr ''a.png'') (JObj []) (isoformat (local_now (now E))))],
          calls = [PutObject, PutItem]\<rparr>)
      else upload_image sample_lib E (post upload_text) empty_world)"
  by (auto simp add: upload_defs request_defs empty_world_def sample_loads sample_texts sample_codec
      upload_json_def printing upload_item_def Let_def)

section \<open>Upload: a file content that does not decode\<close>




section \<open>Upload and delete: a body that is JSON but not an object\<close>

text \<open>
  Claim C10, as the code has it. When the body of the event is present and parses as JSON,
  and the parsed value is not an object (an array, a string, a number, a boolean, null),
  then \<^verbatim>\<open>upload_image\<close> returns 500 when the method is POST and
  \<^verbatim>\<open>delete_image\<close> returns 500 when the method is DELETE, not 400: \<^verbatim>\<open>.get\<close> on the
  parsed value raises \<^verbatim>\<open>AttributeError\<close>, which the catch-all turns into the
  response. With any other method the handler returns 405, since its method check comes
  first. In each case the stores are as before, and no store call was made.
\<close>

theorem non_object_body_by_method:
  assumes "\<forall>m. dumps L (err m) \<noteq> None"
    and "body ev = Some body_str" and "body_str \<noteq> []"
    and "loads L body_str = Some parsed" and "\<forall>kv. parsed \<noteq> JObj kv"
  shows "upload_image L E ev w
           = (Inr (if httpMethod ev = Some ''POST'' then refuse L 500 (str_exn (no_get parsed))
                   else refuse L 405 ''Method not allowed, use POST''), w)
       \<and> delete_image L E ev w
           = (Inr (if httpMethod ev = Some ''DELETE'' then refuse L 500 (str_exn (no_get parsed))
                   else refuse L 405 ''Method not allowed, use DELETE''), w)"
  using assms
  by (simp add: upload_image_def upload_image_try_def delete_image_def delete_image_try_def
      response_refuse py_get_not_object no_get_not_ClientError)

theorem non_object_body_by_method_witness:
  "upload_image sample_lib quiet (post array_text) one_image
     = (Inr (refuse sample_lib 500 (str_exn (no_get array_json))), one_image)
   \<and> delete_image sample_lib quiet (post array_text) one_image
     = (Inr (refuse sample_lib 405 ''Method not allowed, use DELETE''), one_image)
   \<and> upload_image sample_lib quiet (delete_request array_text) one_image
     = (Inr (refuse sample_lib 405 ''Method not allowed, use POST''), one_image)
   \<and> delete_image sample_lib quiet (delete_request array_text) one_image
     = (Inr (refuse sample_lib 500 (str_exn (no_get array_json))), one_image)"
proof -
  have b: "body (post array_text) = Some array_text" "body (delete_request array_text) = Some array_text"
    and m: "httpMethod (post array_text) = Some ''POST''"
      "httpMethod (delete_request array_text) = Some ''DELETE''"
    and n: "\<forall>kv. array_json \<noteq> JObj kv"
    by (simp_all add: request_defs array_json_def)
  from non_object_body_by_method [OF sample_encodes_errors b(1) sample_texts(4) sample_loads(4) n, of quiet one_image]
    non_object_body_by_method [OF sample_encodes_errors b(2) sample_texts(4) sample_loads(4) n, of quiet one_image]
  show ?thesis by (simp add: m)
qed

text \<open>
  The claim as written has both handlers return 500 on every such event. One event has
  one method: a POST with the body \<^verbatim>\<open>[1]\<close> gets 405 from \<^verbatim>\<open>delete_image\<close>, and a
  DELETE with that body gets 405 from \<^verbatim>\<open>upload_image\<close>.
\<close>

theorem non_object_body_other_verb_counterexample:
  "loads sample_lib array_text = Some (JArr [JInt 1])
   \<and> status (delete_image sample_lib quiet (post array_text) one_image) = Some 405
   \<and> status (upload_image sample_lib quiet (delete_request array_text) one_image) = Some 405"
  by (simp add: upload_image_def upload_image_try_def delete_image_def delete_image_try_def
      request_defs sample_loads array_json_def
      response_refuse [OF sample_encodes_errors] status_refuse)

section \<open>Get: the query parameter \<open>id\<close> is missing\<close>

text \<open>
  When the event has no \<^verbatim>\<open>queryStringParameters\<close> key, or has a mapping without
  \<^verbatim>\<open>id\<close> or with an empty \<^verbatim>\<open>id\<close>, \<^verbatim>\<open>get_image\<close> answers 400 and calls no store.
\<close>

lemma get_image_missing_id:
  assumes "\<forall>m. dumps L (err m) \<noteq> None"
    and "queryStringParameters ev = Absent
         \<or> (\<exists>m. queryStringParameters ev = Params m \<and> \<not> given (m ''id''))"
  shows "get_image L E ev w = (Inr (refuse L 400 ''Missing id in query parameters''), w)"
  using assms
  by (auto simp: get_image_def get_image_try_def response_refuse
      split: option.splits elim!: given.elims)

text \<open>
  Claim C4. An event whose \<^verbatim>\<open>queryStringParameters\<close> is null has no \<^verbatim>\<open>id\<close>
  parameter either, and there \<^verbatim>\<open>get_image\<close> returns 500 instead of 400:
  \<^verbatim>\<open>event.get("queryStringParameters", {})\<close> yields \<^verbatim>\<open>None\<close>, and
  \<^verbatim>\<open>params.get("id")\<close> raises \<^verbatim>\<open>AttributeError\<close>. \<^verbatim>\<open>list_images\<close> reads the
  same key with \<^verbatim>\<open>... or {}\<close> and does not fail there.
\<close>

theorem get_image_null_query_is_500:
  "status (get_image sample_lib quiet (get_request Null) one_image) = Some 500"
  by (simp add: get_image_def get_image_try_def get_request_def no_get_not_ClientError
      response_refuse [OF sample_encodes_errors] status_refuse)

section \<open>Every handler returns an envelope\<close>

text \<open>
  A response returned from inside a \<^verbatim>\<open>try\<close> block was built by \<^verbatim>\<open>response\<close>,
  with one of the status codes of that handler.
\<close>

lemma upload_try_Inr:
  "upload_image_try L E ev w = (Inr r, w') \<Longrightarrow> \<exists>c v. response L c v = Inr r \<and> c \<in> {200, 400, 405}"
  unfolding upload_image_try_def Let_def
  by (auto split: if_splits option.splits sum.splits prod.splits)

lemma list_try_Inr:
  "list_images_try L E ev w = (Inr r, w') \<Longrightarrow> \<exists>c v. response L c v = Inr r \<and> c \<in> {200}"
  unfolding list_images_try_def Let_def
  by (auto split: if_splits option.splits sum.splits prod.splits)

lemma get_try_Inr:
  "get_image_try L E ev w = (Inr r, w') \<Longrightarrow> \<exists>c v. response L c v = Inr r \<and> c \<in> {200, 400, 404}"
  unfolding get_image_try_def Let_def
  by (auto split: if_splits option.splits sum.splits prod.splits)

lemma delete_try_Inr:
  "delete_image_try L E ev w = (Inr r, w') \<Longrightarrow> \<exists>c v. response L c v = Inr r \<and> c \<in> {200, 400, 404, 405}"
  unfolding delete_image_try_def Let_def
  by (auto split: if_splits option.splits sum.splits prod.splits)

lemma envelope_of_try:
  assumes enc: "\<forall>m. dumps L (err m) \<noteq> None"
    and h: "h = (case t of (Inl e, w') \<Rightarrow> (response L (stat e) (err (str_exn e)), w') | (Inr r, w') \<Rightarrow> (Inr r, w'))"
    and t: "\<And>r w'. t = (Inr r, w') \<Longrightarrow> \<exists>c v. response L c v = Inr r \<and> c \<in> S"
    and stats: "\<And>e. stat e \<in> T"
  shows "\<exists>r w' v. h = (Inr r, w') \<and> dumps L v = Some (resp_body r) \<and> statusCode r \<in> S \<union> T"
proof (cases t)
  case (Pair x w')
  show ?thesis
  proof (cases x)
    case (Inl e)
    have "response L (stat e) (err (str_exn e)) = Inr (refuse L (stat e) (str_exn e))"
      using enc by (rule response_refuse)
    moreover have "dumps L (err (str_exn e)) = Some (resp_body (refuse L (stat e) (str_exn e)))"
      using enc by (auto simp: refuse_def)
    moreover have "statusCode (refuse L (stat e) (str_exn e)) = stat e" by (simp add: refuse_def)
    ultimately show ?thesis using Pair Inl h stats [of e] by auto
  next
    case (Inr r)
    with Pair t [of r w'] obtain c v where "response L c v = Inr r" "c \<in> S" by auto
    with response_Inr [of L c v r] Pair Inr h show ?thesis by auto
  qed
qed

text \<open>
  Claim C9. For every event, every state of the stores and every outcome of the store
  calls (each may raise any exception), each of the four handlers returns a response: a
  status code and a body that is the \<^verbatim>\<open>json.dumps\<close> encoding of some value; no exception
  leaves the handler. What is used of the library is that \<^verbatim>\<open>json.dumps\<close> encodes a
  dict with the one key \<^verbatim>\<open>error\<close> and a string under it, which is the dict the
  \<^verbatim>\<open>except\<close> clauses build.
\<close>

theorem handlers_return_envelope:
  assumes "\<forall>m. dumps L (err m) \<noteq> None"
  shows "(\<exists>r w' v. upload_image L E ev w = (Inr r, w') \<and> dumps L v = Some (resp_body r)
            \<and> statusCode r \<in> {200, 400, 405, 500})
       \<and> (\<exists>r w' v. list_images L E ev w = (Inr r, w') \<and> dumps L v = Some (resp_body r)
            \<and> statusCode r \<in> {200, 500})
       \<and> (\<exists>r w' v. get_image L E ev w = (Inr r, w') \<and> dumps L v = Some (resp_body r)
            \<and> statusCode r \<in> {200, 400, 404, 500})
       \<and> (\<exists>r w' v. delete_image L E ev w = (Inr r, w') \<and> dumps L v = Some (resp_body r)
            \<and> statusCode r \<in> {200, 400, 404, 405, 500})"
proof (intro conjI)
  have h: "upload_image L E ev w =
      (case upload_image_try L E ev w of
         (Inl e, w') \<Rightarrow> (response L 500 (err (str_exn e)), w')
       | (Inr r, w') \<Rightarrow> (Inr r, w'))"
    by (simp add: upload_image_def)
  have "\<exists>r w' v. upload_image L E ev w = (Inr r, w') \<and> dumps L v = Some (resp_body r)
            \<and> statusCode r \<in> {200, 400, 405} \<union> {500}"
    by (rule envelope_of_try [OF assms h upload_try_Inr]) simp_all
  then show "\<exists>r w' v. upload_image L E ev w = (Inr r, w') \<and> dumps L v = Some (resp_body r)
            \<and> statusCode r \<in> {200, 400, 405, 500}"
    by simp blast
next
  have h: "list_images L E ev w =
      (case list_images_try L E ev w of
         (Inl e, w') \<Rightarrow> (response L 500 (err (str_exn e)), w')
       | (Inr r, w') \<Rightarrow> (Inr r, w'))"
    by (simp add: list_images_def)
  have "\<exists>r w' v. list_images L E ev w = (Inr r, w') \<and> dumps L v = Some (resp_body r)
            \<and> statusCode r \<in> {200} \<union> {500}"
    by (rule envelope_of_try [OF assms h list_try_Inr]) simp_all
  then show "\<exists>r w' v. list_images L E ev w = (Inr r, w') \<and> dumps L v = Some (resp_body r)
            \<and> statusCode r \<in> {200, 500}"
    by simp blast
next
  have h: "get_image L E ev w =
      (case get_image_try L E ev w of
         (Inl e, w') \<Rightarrow> (response L (if is_ClientError e then 404 else 500) (err (str_exn e)), w')
       | (Inr r, w') \<Rightarrow> (Inr r, w'))"
    by (simp add: get_image_def split: prod.splits sum.splits)
  have "\<exists>r w' v. get_image L E ev w = (Inr r, w') \<and> dumps L v = Some (resp_body r)
            \<and> statusCode r \<in> {200, 400, 404} \<union> {404, 500}"
    by (rule envelope_of_try [OF assms h get_try_Inr]) simp_all
  then show "\<exists>r w' v. get_image L E ev w = (Inr r, w') \<and> dumps L v = Some (resp_body r)
            \<and> statusCode r \<in> {200, 400, 404, 500}"
    by simp blast
next
  have h: "delete_image L E ev w =
      (case delete_image_try L E ev w of
         (Inl e, w') \<Rightarrow> (response L (if is_ClientError e then 404 else 500) (err (str_exn e)), w')
       | (Inr r, w') \<Rightarrow> (Inr r, w'))"
    by (simp add: delete_image_def split: prod.splits sum.splits)
  have "\<exists>r w' v. delete_image L E ev w = (Inr r, w') \<and> dumps L v = Some (resp_body r)
            \<and> statusCode r \<in> {200, 400, 404, 405} \<union> {404, 500}"
    by (rule envelope_of_try [OF assms h delete_try_Inr]) simp_all
  then show "\<exists>r w' v. delete_image L E ev w = (Inr r, w') \<and> dumps L v = Some (resp_body r)
            \<and> statusCode r \<in> {200, 400, 404, 405, 500}"
    by simp blast
qed

theorem handlers_return_envelope_witness:
  "(\<forall>m. dumps sample_lib (err m) \<noteq> None)
   \<and> (\<exists>r w' v. upload_image sample_lib (failing PutObject unreachable) (post upload_text) one_image = (Inr r, w')
          \<and> dumps sample_lib v = Some (resp_body r) \<and> statusCode r \<in> {200, 400, 405, 500})
   \<and> (\<exists>r w' v. list_images sample_lib (failing PutObject unreachable) (post upload_text) one_image = (Inr r, w')
          \<and> dumps sample_lib v = Some (resp_body r) \<and> statusCode r \<in> {200, 500})
   \<and> (\<exists>r w' v. get_image sample_lib (failing PutObject unreachable) (post upload_text) one_image = (Inr r, w')
          \<and> dumps sample_lib v = Some (resp_body r) \<and> statusCode r \<in> {200, 400, 404, 500})
   \<and> (\<exists>r w' v. delete_image sample_lib (failing PutObject unreachable) (post upload_text) one_image = (Inr r, w')
          \<and> dumps sample_lib v = Some (resp_body r) \<and> statusCode r \<in> {200, 400, 404, 405, 500})"
  using handlers_return_envelope [OF sample_encodes_errors, of "failing PutObject unreachable" "post upload_text" one_image]
    sample_encodes_errors
  by blast


section \<open>Delete: which exception gives which status\<close>

text \<open>
  Claim C5, as the code has it. In \<^verbatim>\<open>delete_image\<close> the two \<^verbatim>\<open>except\<close> clauses
  guard the whole \<^verbatim>\<open>try\<close> block, so the class of the exception decides and the step
  that raised it does not: for a request that reaches the point lookup and a record that
  exists, an exception raised by the lookup, by the blob delete or by the record delete
  gives 404 when it is a \<^verbatim>\<open>ClientError\<close> and 500 when it is any other exception.
\<close>

theorem delete_image_error_mapping:
  assumes "\<forall>m. dumps L (err m) \<noteq> None"
    and "httpMethod ev = Some ''DELETE''"
    and "body ev = Some body_str" and "body_str \<noteq> []"
    and "loads L body_str = Some parsed"
    and "py_get parsed ''id'' = Inr (JStr image_id)" and "image_id \<noteq> []"
    and "map_of (table w) image_id = Some item"
    and "map_of item ''file_name'' = Some (JStr file_name)"
  shows "status (delete_image L (E\<lparr>faults := (faults E)(GetItem \<mapsto> e)\<rparr>) ev w)
           = Some (if is_ClientError e then 404 else 500)
       \<and> status (delete_image L (E\<lparr>faults := (faults E)(GetItem := None, DeleteObject \<mapsto> e)\<rparr>) ev w)
           = Some (if is_ClientError e then 404 else 500)
       \<and> status (delete_image L
            (E\<lparr>faults := (faults E)(GetItem := None, DeleteObject := None, DeleteItem \<mapsto> e)\<rparr>) ev w)
           = Some (if is_ClientError e then 404 else 500)"
proof -
  have item: "item \<noteq> []" using assms(9) by auto
  show ?thesis
    using assms item
    by (simp add: delete_image_def delete_image_try_def table_get_item_def s3_delete_object_def
        table_delete_item_def record_call_def response_refuse status_refuse
        map_of_read_item read_item_empty)
qed

theorem delete_image_error_mapping_witness:
  "status (delete_image sample_lib (failing GetItem throttled) (delete_request delete_text) one_image) = Some 404
   \<and> status (delete_image sample_lib (failing DeleteObject unreachable) (delete_request delete_text) one_image) = Some 500
   \<and> status (delete_image sample_lib (failing DeleteItem access_denied) (delete_request delete_text) one_image) = Some 404"
proof -
  have enc: "\<forall>m. dumps sample_lib (err m) \<noteq> None" by (rule sample_encodes_errors)
  have a: "httpMethod (delete_request delete_text) = Some ''DELETE''"
    and b: "body (delete_request delete_text) = Some delete_text"
    and c: "delete_text \<noteq> []"
    and d: "loads sample_lib delete_text = Some delete_json"
    and e: "py_get delete_json ''id'' = Inr (JStr sample_id)"
    and f: "sample_id \<noteq> []"
    and g: "map_of (table one_image) sample_id = Some sample_item"
    and h: "map_of sample_item ''file_name'' = Some (JStr ''a.png'')"
    by (simp_all add: sample_defs py_get_def)
  note t = delete_image_error_mapping [OF enc a b c d e f g h, of quiet]
  have f1: "quiet\<lparr>faults := (faults quiet)(GetItem \<mapsto> throttled)\<rparr> = failing GetItem throttled"
    by (simp add: failing_def quiet_def)
  have f2: "quiet\<lparr>faults := (faults quiet)(GetItem := None, DeleteObject \<mapsto> unreachable)\<rparr> = failing DeleteObject unreachable"
    by (auto simp add: failing_def quiet_def no_faults_def fun_eq_iff)
  have f3: "quiet\<lparr>faults := (faults quiet)(GetItem := None, DeleteObject := None, DeleteItem \<mapsto> access_denied)\<rparr> = failing DeleteItem access_denied"
    by (auto simp add: failing_def quiet_def no_faults_def fun_eq_iff)
  have k: "is_ClientError throttled" "\<not> is_ClientError unreachable" "is_ClientError access_denied"
    by (simp_all add: throttled_def unreachable_def access_denied_def)
  from t [of throttled] t [of unreachable] t [of access_denied] show ?thesis
    unfolding f1 f2 f3 by (simp add: k)
qed

text \<open>
  The claim as written sends every exception of the blob delete to 500. A
  \<^verbatim>\<open>ClientError\<close> raised by \<^verbatim>\<open>s3.delete_object\<close>, after the lookup found the
  record, gives 404; the record delete is not attempted.
\<close>

theorem delete_blob_failure_counterexample:
  "status (delete_image sample_lib (failing DeleteObject access_denied) (delete_request delete_text) one_image) = Some 404
   \<and> calls (snd (delete_image sample_lib (failing DeleteObject access_denied) (delete_request delete_text) one_image))
       = [PutObject, PutItem, GetItem, DeleteObject]"
  by (simp add: delete_image_def delete_image_try_def table_get_item_def map_of_read_item read_item_empty s3_delete_object_def
      record_call_def py_get_def request_defs state_defs sample_loads sample_texts delete_json_def
      access_denied_def response_refuse [OF sample_encodes_errors] status_refuse)

section \<open>Get: which exception gives which status\<close>

text \<open>
  Claim C6, as the code has it. In \<^verbatim>\<open>get_image\<close> too the class of the exception
  decides, at either store call: for a request with an \<^verbatim>\<open>id\<close> and a record that
  exists, an exception raised by the point lookup or by the blob fetch gives 404 when it
  is a \<^verbatim>\<open>ClientError\<close> and 500 when it is any other exception; a blob that is not in
  the object store is such a \<^verbatim>\<open>ClientError\<close> and gives 404.
\<close>

theorem get_image_error_mapping:
  assumes "\<forall>m. dumps L (err m) \<noteq> None"
    and "query ev ''id'' = Some image_id" and "image_id \<noteq> []"
    and "map_of (table w) image_id = Some item"
    and "map_of item ''file_name'' = Some (JStr file_name)"
  shows "status (get_image L (E\<lparr>faults := (faults E)(GetItem \<mapsto> e)\<rparr>) ev w)
           = Some (if is_ClientError e then 404 else 500)
       \<and> status (get_image L (E\<lparr>faults := (faults E)(GetItem := None, GetObject \<mapsto> e)\<rparr>) ev w)
           = Some (if is_ClientError e then 404 else 500)
       \<and> (bucket w file_name = None \<longrightarrow>
            status (get_image L (E\<lparr>faults := (faults E)(GetItem := None, GetObject := None)\<rparr>) ev w)
              = Some 404)"
proof -
  have item: "item \<noteq> []" using assms(5) by auto
  obtain m where m: "queryStringParameters ev = Params m" "m ''id'' = Some image_id"
    using assms(2) by (auto simp: query_def split: query_params.splits)
  show ?thesis
    using assms m item
    by (simp add: get_image_def get_image_try_def table_get_item_def s3_get_object_def
        record_call_def response_refuse status_refuse no_such_key_def
        map_of_read_item read_item_empty)
qed

theorem get_image_error_mapping_witness:
  "status (get_image sample_lib (failing GetItem unreachable) (get_request (Params [''id'' \<mapsto> sample_id])) one_image) = Some 500
   \<and> status (get_image sample_lib (failing GetObject access_denied) (get_request (Params [''id'' \<mapsto> sample_id])) one_image) = Some 404
   \<and> status (get_image sample_lib (failing GetObject unreachable) (get_request (Params [''id'' \<mapsto> sample_id])) one_image) = Some 500
   \<and> bucket record_only ''a.png'' = None
   \<and> status (get_image sample_lib quiet (get_request (Params [''id'' \<mapsto> sample_id])) record_only) = Some 404"
proof -
  have enc: "\<forall>m. dumps sample_lib (err m) \<noteq> None" by (rule sample_encodes_errors)
  have a: "query (get_request (Params [''id'' \<mapsto> sample_id])) ''id'' = Some sample_id"
    and b: "sample_id \<noteq> []"
    and c: "map_of (table one_image) sample_id = Some sample_item"
    and c': "map_of (table record_only) sample_id = Some sample_item"
    and d: "map_of sample_item ''file_name'' = Some (JStr ''a.png'')"
    and g: "bucket record_only ''a.png'' = None"
    by (simp_all add: query_def request_defs state_defs sample_texts record_only_def)
  note t = get_image_error_mapping [OF enc a b c d, of quiet]
  note u = get_image_error_mapping [OF enc a b c' d, of quiet]
  have f1: "quiet\<lparr>faults := (faults quiet)(GetItem \<mapsto> unreachable)\<rparr> = failing GetItem unreachable"
    by (simp add: failing_def quiet_def)
  have f2: "quiet\<lparr>faults := (faults quiet)(GetItem := None, GetObject \<mapsto> e)\<rparr> = failing GetObject e" for e
    by (auto simp add: failing_def quiet_def no_faults_def fun_eq_iff)
  have f3: "quiet\<lparr>faults := (faults quiet)(GetItem := None, GetObject := None)\<rparr> = quiet"
    by (auto simp add: quiet_def no_faults_def fun_eq_iff)
  have k: "\<not> is_ClientError unreachable" "is_ClientError access_denied"
    by (simp_all add: unreachable_def access_denied_def)
  from t [of unreachable] t [of access_denied] u [of unreachable] g show ?thesis
    unfolding f1 f2 f3 by (simp add: k)
qed

text \<open>
  The claim as written sends a store exception of the point lookup to 500. A
  \<^verbatim>\<open>ClientError\<close> raised by \<^verbatim>\<open>table.get_item\<close> gives 404, before any blob fetch.
\<close>

theorem get_lookup_failure_counterexample:
  "status (get_image sample_lib (failing GetItem throttled) (get_request (Params [''id'' \<mapsto> sample_id])) one_image) = Some 404
   \<and> calls (snd (get_image sample_lib (failing GetItem throttled) (get_request (Params [''id'' \<mapsto> sample_id])) one_image))
       = [PutObject, PutItem, GetItem]"
  by (simp add: get_image_def get_image_try_def table_get_item_def map_of_read_item read_item_empty
      record_call_def request_defs state_defs sample_texts throttled_def
      response_refuse [OF sample_encodes_errors] status_refuse)

section \<open>Upload: what a successful upload leaves behind\<close>

text \<open>
  A response 200 of \<^verbatim>\<open>upload_image\<close> comes from the last statement of the
  \<^verbatim>\<open>try\<close> block only: the file name was a string, both store calls went through, and
  the stores hold the blob under the file name and the new record under the new
  identifier.
\<close>

lemma upload_try_200:
  assumes "upload_image_try L E ev w = (Inr r, w')" and "statusCode r = 200"
  shows "\<exists>body_str parsed file_name file_content_b64 metadata file_content.
           httpMethod ev = Some ''POST'' \<and> body ev = Some body_str \<and> loads L body_str = Some parsed
         \<and> py_get parsed ''file_name'' = Inr (JStr file_name)
         \<and> py_get parsed ''file_content'' = Inr file_content_b64
         \<and> py_get_default parsed ''metadata'' (JObj []) = Inr metadata
         \<and> py_b64decode L file_content_b64 = Some file_content
         \<and> response L 200 (upload_ok (JStr file_name) (uuid4 E)) = Inr r
         \<and> w' = w\<lparr>calls := calls w @ [PutObject, PutItem],
                   bucket := (bucket w)(file_name \<mapsto> file_content),
                   table := AList.update (uuid4 E)
                     (upload_item (uuid4 E) (JStr file_name) metadata (isoformat (local_now (now E))))
                     (table w)\<rparr>"
  using assms
  unfolding upload_image_try_def Let_def s3_put_object_def table_put_item_def record_call_def
  by (auto split: if_splits option.splits sum.splits prod.splits json.splits
      dest!: response_Inr simp: upload_item_def response_def)

lemma upload_200:
  assumes "upload_image L E ev w = (Inr r, w')" and "statusCode r = 200"
  shows "upload_image_try L E ev w = (Inr r, w')"
  using assms
  by (auto simp: upload_image_def split: prod.splits sum.splits dest!: response_Inr)

subsection \<open>Dates print and read back\<close>

lemma is_digit_digit: "is_digit (digit n)"
  unfolding digit_def is_digit_def by (rule nth_mem) simp

lemma ten_cases:
  "(k::nat) < 10 \<Longrightarrow> k = 0 \<or> k = 1 \<or> k = 2 \<or> k = 3 \<or> k = 4 \<or> k = 5 \<or> k = 6 \<or> k = 7 \<or> k = 8 \<or> k = 9"
  by arith

lemma digit_value_digit: "digit_value (digit n) = n mod 10"
proof -
  have "n mod 10 < 10" by simp
  from ten_cases [OF this] show ?thesis
    unfolding digit_def digit_value_def by (elim disjE) simp_all
qed

lemma is_iso_date_isoformat: "is_iso_date (isoformat d)"
  by (simp add: isoformat_def is_digit_digit)

lemma two_digits: "m < 100 \<Longrightarrow> 10 * (m div 10 mod 10) + m mod 10 = (m::nat)"
  using mod_mult2_eq [of m 10 10] by simp

lemma four_digits:
  assumes "(y::nat) < 10000"
  shows "1000 * (y div 1000 mod 10) + 100 * (y div 100 mod 10) + 10 * (y div 10 mod 10) + y mod 10 = y"
proof -
  have a: "y mod 10000 = 10 * (y div 10 mod 1000) + y mod 10"
    using mod_mult2_eq [of y 10 1000] by simp
  have b: "y div 10 mod 1000 = 10 * (y div 100 mod 100) + y div 10 mod 10"
    using mod_mult2_eq [of "y div 10" 10 100] by (simp add: div_mult2_eq [symmetric])
  have c: "y div 100 mod 100 = 10 * (y div 1000 mod 10) + y div 100 mod 10"
    using mod_mult2_eq [of "y div 100" 10 10] by (simp add: div_mult2_eq [symmetric])
  from assms have "y mod 10000 = y" by simp
  with a b c show ?thesis by simp
qed

lemma read_isoformat:
  assumes "valid_date d"
  shows "read_iso_date (isoformat d) = Some d"
proof -
  from assms have y: "year d < 10000" and m: "month d < 100" and dd: "day d < 100"
    by (simp_all add: valid_date_def)
  have "read_iso_date (isoformat d) =
      Some \<lparr>year = 1000 * (year d div 1000 mod 10) + 100 * (year d div 100 mod 10) + 10 * (year d div 10 mod 10) + year d mod 10,
            month = 10 * (month d div 10 mod 10) + month d mod 10,
            day = 10 * (day d div 10 mod 10) + day d mod 10\<rparr>"
    using is_iso_date_isoformat [of d]
    by (simp add: isoformat_def digit_value_digit)
  also have "\<dots> = Some d"
    by (simp add: four_digits [OF y] two_digits [OF m] two_digits [OF dd])
  finally show ?thesis .
qed

section \<open>Upload: the date of creation\<close>

text \<open>
  Claim C7, as the code has it. After a successful upload the record under the new
  identifier carries, as \<^verbatim>\<open>created_at\<close>, the calendar date of the host's local clock
  (\<^verbatim>\<open>datetime.now()\<close> has no time zone) printed as \<^verbatim>\<open>YYYY-MM-DD\<close>: ten
  characters that read back as that very date, with no time of day.
\<close>

theorem upload_created_at_is_local_date:
  assumes "upload_image L E ev w = (Inr r, w')" and "statusCode r = 200"
    and "valid_date (local_now (now E))"
  shows "attribute w' (uuid4 E) ''created_at'' = Some (JStr (isoformat (local_now (now E))))
       \<and> read_iso_date (isoformat (local_now (now E))) = Some (local_now (now E))"
proof -
  from upload_try_200 [OF upload_200 [OF assms(1,2)] assms(2)]
  obtain file_name metadata where
    "table w' = AList.update (uuid4 E)
        (upload_item (uuid4 E) (JStr file_name) metadata (isoformat (local_now (now E)))) (table w)"
    by auto
  then have "attribute w' (uuid4 E) ''created_at'' = Some (JStr (isoformat (local_now (now E))))"
    by (simp add: attribute_def update_conv' upload_item_def)
  with read_isoformat [OF assms(3)] show ?thesis by simp
qed

theorem upload_created_at_is_local_date_witness:
  "status (upload_image sample_lib quiet (post upload_text) empty_world) = Some 200
   \<and> attribute (snd (upload_image sample_lib quiet (post upload_text) empty_world)) sample_id ''created_at''
       = Some (JStr ''2025-10-05'')
   \<and> read_iso_date ''2025-10-05'' = Some \<lparr>year = 2025, month = 10, day = 5\<rparr>"
proof -
  obtain r w' where u: "upload_image sample_lib quiet (post upload_text) empty_world = (Inr r, w')"
    and ok: "statusCode r = 200"
    using sample_upload [of quiet] by (simp add: quiet_def no_faults_def)
  have v: "valid_date (local_now (now quiet))" by (simp add: valid_date_def quiet_def)
  have i: "isoformat (local_now (now quiet)) = ''2025-10-05''"
    by (simp add: isoformat_def quiet_def digit_def)
  have uid: "uuid4 quiet = sample_id"
    and d: "local_now (now quiet) = \<lparr>year = 2025, month = 10, day = 5\<rparr>"
    by (simp_all add: quiet_def)
  note t = upload_created_at_is_local_date [OF u ok v, unfolded i uid]
  from t u ok show ?thesis
    by (simp add: status_def d)
qed

text \<open>
  The claim as written says the UTC date. On a host one hour east of UTC, half an hour
  before UTC midnight, the record gets the date of the next day, not the UTC date.
\<close>

theorem created_at_not_utc_counterexample:
  "status (upload_image sample_lib east_of_utc (post upload_text) empty_world) = Some 200
   \<and> attribute (snd (upload_image sample_lib east_of_utc (post upload_text) empty_world)) sample_id ''created_at''
       = Some (JStr ''2025-10-06'')
   \<and> isoformat (utc_now (now east_of_utc)) = ''2025-10-05''"
proof -
  have f: "faults east_of_utc PutObject = None \<and> faults east_of_utc PutItem = None"
    and i: "uuid4 east_of_utc = sample_id"
    by (simp_all add: east_of_utc_def quiet_def no_faults_def)
  have d: "isoformat (local_now (now east_of_utc)) = ''2025-10-06''"
      "isoformat (utc_now (now east_of_utc)) = ''2025-10-05''"
    by (simp_all add: isoformat_def east_of_utc_def digit_def)
  show ?thesis
    using sample_upload [of east_of_utc] f
    by (simp add: status_def attribute_def upload_item_def i d)
qed

section \<open>Upload, then get\<close>




section \<open>Upload: the order of the checks\<close>




section \<open>List: the filters\<close>











end
